theory Spec2Isabelle
  imports Complex_Main "HOL-Library.AList"
begin

section \<open>The occupancy aggregation script \<^verbatim>\<open>analyze_parking_data.py\<close>\<close>

text \<open>
  The script fetches the documents of the collection \<^verbatim>\<open>lots\<close>, turns the sparse
  mapping \<^verbatim>\<open>historicalData.averageByHour\<close> of each lot into a dense series of 24
  occupancy rates, and dumps the mapping from lot name to summary into a JSON file.

  Modelling decisions.
  \<^item> A document is a Python dict; a key that may be missing is an \<open>option\<close> field.
    Values have the types of the data model: strings, Python integers (\<open>int\<close>) and,
    for the hourly counts, finite numbers.
  \<^item> A number of the pandas series is a \<open>pyfloat\<close>: a finite value, an infinity or
    NaN. The division and the multiplication of the script round their exact result
    to binary64. This rounding is the parameter \<open>rnd\<close> of the model: it maps the exact
    result to the stored value, a finite one or, on overflow, an infinity. The
    properties are proved for every rounding; the scenarios are evaluated with the
    rounding \<open>Fin\<close>, which keeps the exact result. Division follows numpy: a division
    by zero gives an infinity or NaN and raises nothing. A count and a capacity are
    taken as the values binary64 has for them.
  \<^item> A string is a list of characters, each one code point below 256.
  \<^item> An exception is a value \<open>Inl e\<close> of a sum type; it ends the run.
  \<^item> The dict \<^verbatim>\<open>popular_times\<close> is an association list in insertion order,
    updated with \<open>AList.update\<close> (a new key goes to the end, an existing key keeps
    its place).
  \<^item> The database and the disk are parameters of the run: what streaming the
    collection yields, and whether opening and writing the file succeed. The state is
    the output file and the console.
  \<^item> The initialisation of the client at module level and the report printed under
    \<^verbatim>\<open>__main__\<close> are outside \<^verbatim>\<open>analyze_parking_data\<close> and are not modelled. The
    loop \<^verbatim>\<open>for lot in lots_data\<close> is the function \<open>analyze_lots\<close>, its body
    \<open>analyze_lot\<close>.
\<close>

subsection \<open>Values and errors\<close>

datatype error =
    KeyError string
  | ValueError string
  | FetchError string
  | OSError string

datatype pyfloat = NInf | Fin real | PInf | NaN

record historical =
  averageByHour :: "(string \<times> real) list option"

record lot =
  name :: "string option"
  capacity :: "int option"
  permit :: "string option"
  count_now :: "int option"
  historicalData :: "historical option"

text \<open>
  The summary dict of a lot. Its keys \<^verbatim>\<open>'permit'\<close> and \<^verbatim>\<open>'capacity'\<close> are the
  fields \<open>permit_out\<close> and \<open>capacity_out\<close>, to keep them apart from the keys of the
  document.
\<close>

record summary =
  data :: "pyfloat list"
  max_occupancy :: pyfloat
  permit_out :: string
  current_occupancy :: int
  capacity_out :: int

type_synonym popular_times = "(string \<times> summary) list"

subsection \<open>\<^verbatim>\<open>int(hour)\<close>\<close>

text \<open>
  Python's \<^verbatim>\<open>int\<close> on a string, base 10: white space is stripped on both sides, one
  sign is allowed, and the digits may be grouped by single underscores. Anything else
  raises \<^verbatim>\<open>ValueError\<close>, here \<open>None\<close>. The white space that \<^verbatim>\<open>int\<close> strips below
  code point 256 is the tab, the line feed, the vertical tab, the form feed, the
  carriage return, the space, the next line (133) and the no-break space (160). The
  interpreter's limit on the number of digits is not modelled.
\<close>

definition is_space :: "char \<Rightarrow> bool" where
  "is_space c = ((of_char c :: nat) \<in> {9, 10, 11, 12, 13, 32, 133, 160})"

definition is_digit :: "char \<Rightarrow> bool" where
  "is_digit c = (48 \<le> (of_char c :: nat) \<and> (of_char c :: nat) \<le> 57)"

definition digit_val :: "char \<Rightarrow> nat" where
  "digit_val c = (of_char c :: nat) - 48"

definition strip :: "string \<Rightarrow> string" where
  "strip s = rev (dropWhile is_space (rev (dropWhile is_space s)))"

fun py_digits :: "nat \<Rightarrow> bool \<Rightarrow> string \<Rightarrow> nat option" where
  "py_digits acc prev [] = (if prev then Some acc else None)"
| "py_digits acc prev (c # cs) =
     (if is_digit c then py_digits (acc * 10 + digit_val c) True cs
      else if c = CHR ''_'' \<and> prev then py_digits acc False cs
      else None)"

definition py_int :: "string \<Rightarrow> int option" where
  "py_int s =
     (case strip s of
        [] \<Rightarrow> None
      | c # cs \<Rightarrow>
          if c = CHR ''-'' then map_option (\<lambda>n. - int n) (py_digits 0 False cs)
          else if c = CHR ''+'' then map_option int (py_digits 0 False cs)
          else map_option int (py_digits 0 False (c # cs)))"

subsection \<open>The pandas operations the script uses\<close>

text \<open>
  The rounding of an exact result to the value binary64 stores for it.
\<close>

type_synonym rounding = "real \<Rightarrow> pyfloat"

text \<open>
  \<^verbatim>\<open>df['occupied'] / capacity\<close> and \<^verbatim>\<open>... * 100\<close>, element by element. The
  count is a finite number and the capacity a Python integer. A zero divisor gives an
  infinity of the sign of the count, or NaN for the count 0; an infinity or NaN
  times 100 is itself.
\<close>

definition fdiv :: "rounding \<Rightarrow> real \<Rightarrow> int \<Rightarrow> pyfloat" where
  "fdiv rnd x c =
     (if c = 0 then (if 0 < x then PInf else if x < 0 then NInf else NaN)
      else rnd (x / real_of_int c))"

definition fmul :: "rounding \<Rightarrow> pyfloat \<Rightarrow> real \<Rightarrow> pyfloat" where
  "fmul rnd v k = (case v of Fin x \<Rightarrow> rnd (x * k) | _ \<Rightarrow> v)"

definition occupancy_rate :: "rounding \<Rightarrow> real \<Rightarrow> int \<Rightarrow> pyfloat" where
  "occupancy_rate rnd occupied cap = fmul rnd (fdiv rnd occupied cap) 100"

text \<open>The order of the non-NaN values, and the maximum of two of them.\<close>

fun fle :: "pyfloat \<Rightarrow> pyfloat \<Rightarrow> bool" where
  "fle NaN _ = False"
| "fle _ NaN = False"
| "fle NInf _ = True"
| "fle _ PInf = True"
| "fle (Fin x) (Fin y) = (x \<le> y)"
| "fle _ _ = False"

definition fmax :: "pyfloat \<Rightarrow> pyfloat \<Rightarrow> pyfloat" where
  "fmax a b = (if fle a b then b else a)"

text \<open>
  \<^verbatim>\<open>Series.max()\<close> skips NaN (\<^verbatim>\<open>skipna=True\<close>) and is NaN when nothing is left.
\<close>

definition series_max :: "pyfloat list \<Rightarrow> pyfloat" where
  "series_max xs =
     (case filter (\<lambda>v. v \<noteq> NaN) xs of
        [] \<Rightarrow> NaN
      | v # vs \<Rightarrow> foldl fmax v vs)"

text \<open>
  \<^verbatim>\<open>self.update(other)\<close> for a series \<open>self\<close> indexed by \<^verbatim>\<open>range(len(self))\<close> and a
  series \<open>other\<close> given by its (label, value) pairs. pandas reindexes \<open>other\<close> like
  \<open>self\<close>, which raises \<^verbatim>\<open>ValueError\<close> when a label of \<open>other\<close> occurs twice; labels
  that \<open>self\<close> does not have are dropped; then the values of \<open>other\<close> that are not
  NaN replace those of \<open>self\<close>.
\<close>

definition series_update :: "pyfloat list \<Rightarrow> (int \<times> pyfloat) list \<Rightarrow> error + pyfloat list" where
  "series_update self other =
     (if \<not> distinct (map fst other)
      then Inl (ValueError ''cannot reindex on an axis with duplicate labels'')
      else Inr (map (\<lambda>i. case map_of other (int i) of
                            None \<Rightarrow> self ! i
                          | Some v \<Rightarrow> if v = NaN then self ! i else v)
                    [0..<length self]))"

subsection \<open>The loop body of \<^verbatim>\<open>analyze_parking_data\<close>\<close>

text \<open>\<^verbatim>\<open>lot.get('historicalData', {}).get('averageByHour', {})\<close>\<close>

definition hourly_data :: "lot \<Rightarrow> (string \<times> real) list" where
  "hourly_data l =
     (case historicalData l of
        None \<Rightarrow> []
      | Some h \<Rightarrow> (case averageByHour h of None \<Rightarrow> [] | Some m \<Rightarrow> m))"

text \<open>
  The list comprehension building the rows \<^verbatim>\<open>{"hour": int(hour), "occupied": count}\<close>;
  the first label that is no integer raises.
\<close>

fun data_points :: "(string \<times> real) list \<Rightarrow> error + (int \<times> real) list" where
  "data_points [] = Inr []"
| "data_points ((hour, count) # rest) =
     (case py_int hour of
        None \<Rightarrow> Inl (ValueError hour)
      | Some h \<Rightarrow>
          (case data_points rest of
             Inl e \<Rightarrow> Inl e
           | Inr ps \<Rightarrow> Inr ((h, count) # ps)))"

text \<open>
  One iteration of \<^verbatim>\<open>for lot in lots_data\<close>. The data frame \<open>df\<close> is the list of
  its rows; \<^verbatim>\<open>df.empty\<close> is \<open>df = []\<close>. The keys \<^verbatim>\<open>'permit'\<close> and \<^verbatim>\<open>'count_now'\<close>
  are read inside the guard only, after the series has been built.
\<close>

definition analyze_lot :: "rounding \<Rightarrow> lot \<Rightarrow> popular_times \<Rightarrow> error + popular_times" where
  "analyze_lot rnd l popular =
     (case name l of
        None \<Rightarrow> Inl (KeyError ''name'')
      | Some lot_name \<Rightarrow>
     (case capacity l of
        None \<Rightarrow> Inl (KeyError ''capacity'')
      | Some cap \<Rightarrow>
     (case data_points (hourly_data l) of
        Inl e \<Rightarrow> Inl e
      | Inr df \<Rightarrow>
          if df = [] then Inr popular
          else
            (case series_update (replicate 24 (Fin 0))
                    (map (\<lambda>(h, occupied). (h, occupancy_rate rnd occupied cap)) df) of
               Inl e \<Rightarrow> Inl e
             | Inr full_hours \<Rightarrow>
            (case permit l of
               None \<Rightarrow> Inl (KeyError ''permit'')
             | Some p \<Rightarrow>
            (case count_now l of
               None \<Rightarrow> Inl (KeyError ''count_now'')
             | Some c \<Rightarrow>
                 Inr (AList.update lot_name
                        \<lparr>data = full_hours,
                         max_occupancy = series_max full_hours,
                         permit_out = p,
                         current_occupancy = c,
                         capacity_out = cap\<rparr>
                        popular)))))))"

fun analyze_lots :: "rounding \<Rightarrow> lot list \<Rightarrow> popular_times \<Rightarrow> error + popular_times" where
  "analyze_lots rnd [] popular = Inr popular"
| "analyze_lots rnd (l # ls) popular =
     (case analyze_lot rnd l popular of
        Inl e \<Rightarrow> Inl e
      | Inr popular' \<Rightarrow> analyze_lots rnd ls popular')"

subsection \<open>The run\<close>

text \<open>
  The database is given by what streaming the collection does: it fails (no
  credentials, no connection), or it yields the documents.
\<close>

record firestore =
  available :: bool
  lots :: "lot list"

definition get_firestore_data :: "firestore \<Rightarrow> error + lot list" where
  "get_firestore_data db =
     (if available db then Inr (lots db) else Inl (FetchError ''lots''))"

text \<open>
  The output file holds a JSON document; it is represented by the mapping that
  \<^verbatim>\<open>json.dump\<close> serialises, not by its text. \<open>Truncated\<close> is a file that
  \<^verbatim>\<open>open(..., 'w')\<close> has emptied and a failing \<^verbatim>\<open>json.dump\<close> has left incomplete.
  The behaviour of the disk is a parameter of the run.
\<close>

datatype json_file = Complete popular_times | Truncated popular_times

datatype disk = DiskOk | OpenFails | DumpFails

record world =
  out_file :: "json_file option"
  stdout :: "string list"

definition analyze_parking_data ::
    "rounding \<Rightarrow> firestore \<Rightarrow> disk \<Rightarrow> world \<Rightarrow> world \<times> (error + popular_times)" where
  "analyze_parking_data rnd db dsk w =
     (case get_firestore_data db of
        Inl e \<Rightarrow> (w, Inl e)
      | Inr lots_data \<Rightarrow>
     (case analyze_lots rnd lots_data [] of
        Inl e \<Rightarrow> (w, Inl e)
      | Inr popular \<Rightarrow>
     (case dsk of
        OpenFails \<Rightarrow> (w, Inl (OSError ''src/data/popularTimes.json''))
      | DumpFails \<Rightarrow>
          (w\<lparr>out_file := Some (Truncated popular)\<rparr>,
           Inl (OSError ''src/data/popularTimes.json''))
      | DiskOk \<Rightarrow>
          (w\<lparr>out_file := Some (Complete popular),
             stdout := stdout w @ [''Analysis complete! Results saved to popularTimes.json'']\<rparr>,
           Inr popular))))"

subsection \<open>Hours in range, and the series of a lot\<close>

text \<open>
  An entry of \<^verbatim>\<open>averageByHour\<close> whose label is an integer from 0 to 23.
\<close>

definition hour_in_range :: "string \<times> real \<Rightarrow> bool" where
  "hour_in_range e = (case py_int (fst e) of None \<Rightarrow> False | Some h \<Rightarrow> 0 \<le> h \<and> h < 24)"

text \<open>
  The dense series in closed form, for a capacity and the rows of the data frame: entry
  \<open>h\<close> is the rate of the row of hour \<open>h\<close>, and 0.0 when there is no such row or its
  rate is NaN. \<open>slots_agree\<close> below shows that the loop body computes it.
\<close>

definition slots :: "rounding \<Rightarrow> int \<Rightarrow> (int \<times> real) list \<Rightarrow> pyfloat list" where
  "slots rnd cap df =
     map (\<lambda>h. case map_of df (int h) of
                 None \<Rightarrow> Fin 0
               | Some occ \<Rightarrow> if occupancy_rate rnd occ cap = NaN then Fin 0
                             else occupancy_rate rnd occ cap)
         [0..<24]"

subsection \<open>Inputs of the scenarios\<close>

definition db_of :: "lot list \<Rightarrow> firestore" where
  "db_of ls = \<lparr>available = True, lots = ls\<rparr>"

definition offline :: firestore where
  "offline = \<lparr>available = False, lots = []\<rparr>"

definition w0 :: world where
  "w0 = \<lparr>out_file = None, stdout = []\<rparr>"

definition written :: "popular_times \<Rightarrow> world" where
  "written p =
     \<lparr>out_file = Some (Complete p),
      stdout = [''Analysis complete! Results saved to popularTimes.json'']\<rparr>"

definition north :: lot where
  "north =
     \<lparr>name = Some ''North'', capacity = Some 100, permit = Some ''Staff'',
      count_now = Some 42,
      historicalData = Some \<lparr>averageByHour = Some [(''8'', 50), (''12'', 80)]\<rparr>\<rparr>"

definition north_summary :: summary where
  "north_summary =
     \<lparr>data = [Fin 0, Fin 0, Fin 0, Fin 0, Fin 0, Fin 0, Fin 0, Fin 0, Fin 50, Fin 0, Fin 0,
              Fin 0, Fin 80, Fin 0, Fin 0, Fin 0, Fin 0, Fin 0, Fin 0, Fin 0, Fin 0, Fin 0,
              Fin 0, Fin 0],
      max_occupancy = Fin 80, permit_out = ''Staff'', current_occupancy = 42,
      capacity_out = 100\<rparr>"

text \<open>A lot whose \<^verbatim>\<open>averageByHour\<close> is empty, and a document with two keys only.\<close>

definition quiet :: lot where
  "quiet =
     \<lparr>name = Some ''Quiet'', capacity = Some 60, permit = Some ''Student'',
      count_now = Some 7,
      historicalData = Some \<lparr>averageByHour = Some []\<rparr>\<rparr>"

definition bare :: lot where
  "bare =
     \<lparr>name = Some ''Bare'', capacity = Some 60, permit = None, count_now = None,
      historicalData = None\<rparr>"

text \<open>A lot of capacity 40 with counts at the hours 8 and 23.\<close>

definition south :: lot where
  "south =
     \<lparr>name = Some ''South'', capacity = Some 40, permit = Some ''Student'',
      count_now = Some 12,
      historicalData = Some \<lparr>averageByHour = Some [(''8'', 10), (''23'', 30)]\<rparr>\<rparr>"

definition south_summary :: summary where
  "south_summary =
     \<lparr>data = [Fin 0, Fin 0, Fin 0, Fin 0, Fin 0, Fin 0, Fin 0, Fin 0, Fin 25, Fin 0, Fin 0,
              Fin 0, Fin 0, Fin 0, Fin 0, Fin 0, Fin 0, Fin 0, Fin 0, Fin 0, Fin 0, Fin 0,
              Fin 0, Fin 75],
      max_occupancy = Fin 75, permit_out = ''Student'', current_occupancy = 12,
      capacity_out = 40\<rparr>"

text \<open>A lot of capacity 0 with a positive count.\<close>

definition closed_lot :: lot where
  "closed_lot =
     \<lparr>name = Some ''Closed'', capacity = Some 0, permit = Some ''Staff'',
      count_now = Some 3,
      historicalData = Some \<lparr>averageByHour = Some [(''8'', 50)]\<rparr>\<rparr>"

definition closed_summary :: summary where
  "closed_summary =
     \<lparr>data = [Fin 0, Fin 0, Fin 0, Fin 0, Fin 0, Fin 0, Fin 0, Fin 0, PInf, Fin 0, Fin 0,
              Fin 0, Fin 0, Fin 0, Fin 0, Fin 0, Fin 0, Fin 0, Fin 0, Fin 0, Fin 0, Fin 0,
              Fin 0, Fin 0],
      max_occupancy = PInf, permit_out = ''Staff'', current_occupancy = 3,
      capacity_out = 0\<rparr>"

text \<open>Lots with a label out of range: beside an hour in range, and alone.\<close>

definition late :: lot where
  "late =
     \<lparr>name = Some ''Late'', capacity = Some 100, permit = Some ''Staff'',
      count_now = Some 5,
      historicalData = Some \<lparr>averageByHour = Some [(''8'', 50), (''25'', 90)]\<rparr>\<rparr>"

definition late_summary :: summary where
  "late_summary =
     \<lparr>data = [Fin 0, Fin 0, Fin 0, Fin 0, Fin 0, Fin 0, Fin 0, Fin 0, Fin 50, Fin 0, Fin 0,
              Fin 0, Fin 0, Fin 0, Fin 0, Fin 0, Fin 0, Fin 0, Fin 0, Fin 0, Fin 0, Fin 0,
              Fin 0, Fin 0],
      max_occupancy = Fin 50, permit_out = ''Staff'', current_occupancy = 5,
      capacity_out = 100\<rparr>"

definition night :: lot where
  "night =
     \<lparr>name = Some ''Night'', capacity = Some 100, permit = Some ''Staff'',
      count_now = Some 9,
      historicalData = Some \<lparr>averageByHour = Some [(''25'', 90)]\<rparr>\<rparr>"

definition night_summary :: summary where
  "night_summary =
     \<lparr>data = replicate 24 (Fin 0), max_occupancy = Fin 0, permit_out = ''Staff'',
      current_occupancy = 9, capacity_out = 100\<rparr>"

text \<open>
  A lot with the hour 8 and two labels out of range that are the same integer, and the
  summary of the lot that has the hour 8 alone.
\<close>

definition clash :: lot where
  "clash =
     \<lparr>name = Some ''Clash'', capacity = Some 100, permit = Some ''Staff'',
      count_now = Some 5,
      historicalData =
        Some \<lparr>averageByHour = Some [(''8'', 50), (''25'', 90), (''025'', 10)]\<rparr>\<rparr>"

definition clash_summary :: summary where
  "clash_summary =
     \<lparr>data = [Fin 0, Fin 0, Fin 0, Fin 0, Fin 0, Fin 0, Fin 0, Fin 0, Fin 50, Fin 0, Fin 0,
              Fin 0, Fin 0, Fin 0, Fin 0, Fin 0, Fin 0, Fin 0, Fin 0, Fin 0, Fin 0, Fin 0,
              Fin 0, Fin 0],
      max_occupancy = Fin 50, permit_out = ''Staff'', current_occupancy = 5,
      capacity_out = 100\<rparr>"

text \<open>Documents with a missing key: no name; hours but no permit.\<close>

definition nameless :: lot where
  "nameless =
     \<lparr>name = None, capacity = Some 10, permit = Some ''Staff'', count_now = Some 1,
      historicalData = None\<rparr>"

definition unpermitted :: lot where
  "unpermitted =
     \<lparr>name = Some ''Gate'', capacity = Some 10, permit = None, count_now = Some 1,
      historicalData = Some \<lparr>averageByHour = Some [(''8'', 5)]\<rparr>\<rparr>"

text \<open>A world in which an earlier run has left its file.\<close>

definition w_old :: world where
  "w_old = \<lparr>out_file = Some (Complete [(''North'', north_summary)]), stdout = []\<rparr>"

section \<open>Properties\<close>

subsection \<open>Evaluation of the scenarios\<close>

lemmas eval_defs =
  analyze_parking_data_def get_firestore_data_def analyze_lot_def hourly_data_def
  series_update_def occupancy_rate_def fdiv_def fmul_def series_max_def fmax_def
  py_int_def strip_def is_space_def is_digit_def digit_val_def hour_in_range_def
  db_of_def offline_def w0_def written_def

lemma north_lot: "analyze_lot Fin north [] = Inr [(''North'', north_summary)]"
  by (simp add: north_def north_summary_def eval_defs upt_rec numeral_eq_Suc)

lemma closed_lot_emits: "analyze_lot Fin closed_lot [] = Inr [(''Closed'', closed_summary)]"
  by (simp add: closed_lot_def closed_summary_def eval_defs upt_rec numeral_eq_Suc)

lemma south_lot: "analyze_lot Fin south [] = Inr [(''South'', south_summary)]"
  by (simp add: south_def south_summary_def eval_defs upt_rec numeral_eq_Suc)

lemma late_lot: "analyze_lot Fin late [] = Inr [(''Late'', late_summary)]"
  by (simp add: late_def late_summary_def eval_defs upt_rec numeral_eq_Suc)

lemma night_lot: "analyze_lot Fin night [] = Inr [(''Night'', night_summary)]"
  by (simp add: night_def night_summary_def eval_defs upt_rec numeral_eq_Suc)

lemma nameless_fails: "analyze_lot Fin nameless p = Inl (KeyError ''name'')"
  by (simp add: analyze_lot_def nameless_def)

lemma north_then_nameless: "analyze_lots Fin [north, nameless] [] = Inl (KeyError ''name'')"
  by (simp add: north_lot nameless_fails)

lemma run_of_one:
  assumes "analyze_lot rnd l [] = Inr p"
  shows "analyze_parking_data rnd (db_of [l]) DiskOk w0 = (written p, Inr p)"
  using assms by (simp add: analyze_parking_data_def get_firestore_data_def db_of_def w0_def written_def)

lemma py_int_8: "py_int ''8'' = Some 8"
  by (simp add: eval_defs)

lemma py_int_12: "py_int ''12'' = Some 12"
  by (simp add: eval_defs)

lemma py_int_25: "py_int ''25'' = Some 25"
  by (simp add: eval_defs)

subsection \<open>The output mapping and the lots it comes from\<close>

lemma set_update_subset: "set (AList.update k v al) \<subseteq> insert (k, v) (set al)"
  by (induction al) auto

text \<open>
  An iteration that succeeds leaves the mapping as it is or stores one summary under
  the lot's name, and what it stores does not depend on the mapping.
\<close>

lemma analyze_lot_shape:
  assumes "analyze_lot rnd l p = Inr p'"
  shows "(analyze_lot rnd l [] = Inr [] \<and> p' = p) \<or>
         (\<exists>n s. analyze_lot rnd l [] = Inr [(n, s)] \<and> p' = AList.update n s p)"
  using assms
  by (auto simp: analyze_lot_def split: option.splits sum.splits if_splits)

lemma analyze_lots_origin:
  assumes "analyze_lots rnd ls p = Inr p'" and "(n, s) \<in> set p'"
  shows "(n, s) \<in> set p \<or> (\<exists>l \<in> set ls. analyze_lot rnd l [] = Inr [(n, s)])"
  using assms
proof (induction ls arbitrary: p)
  case Nil
  then show ?case by simp
next
  case (Cons l ls)
  from Cons.prems(1) obtain q where q: "analyze_lot rnd l p = Inr q"
    and rest: "analyze_lots rnd ls q = Inr p'"
    by (auto split: sum.splits)
  from Cons.IH [OF rest Cons.prems(2)]
  consider "(n, s) \<in> set q" | "\<exists>l \<in> set ls. analyze_lot rnd l [] = Inr [(n, s)]"
    by blast
  then show ?case
  proof cases
    case 1
    from analyze_lot_shape [OF q]
    consider "q = p" | n' s' where "analyze_lot rnd l [] = Inr [(n', s')]" "q = AList.update n' s' p"
      by blast
    then show ?thesis
    proof cases
      case 1
      with \<open>(n, s) \<in> set q\<close> show ?thesis by simp
    next
      case 2
      with \<open>(n, s) \<in> set q\<close> set_update_subset [of n' s' p]
      have "(n, s) = (n', s') \<or> (n, s) \<in> set p" by auto
      with 2 show ?thesis by auto
    qed
  next
    case 2
    then show ?thesis by auto
  qed
qed

lemma run_origin:
  assumes "analyze_parking_data rnd db dsk w = (w', Inr result)" and "(n, s) \<in> set result"
  shows "\<exists>l \<in> set (lots db). analyze_lot rnd l [] = Inr [(n, s)]"
proof -
  from assms(1) have "analyze_lots rnd (lots db) [] = Inr result"
    by (auto simp: analyze_parking_data_def get_firestore_data_def
             split: sum.splits if_splits disk.splits)
  from analyze_lots_origin [OF this assms(2)] show ?thesis by simp
qed

text \<open>A run that returns has written the mapping it returns, and nothing else.\<close>

lemma run_writes_what_it_returns:
  assumes "analyze_parking_data rnd db dsk w = (w', Inr result)"
  shows "out_file w' = Some (Complete result)"
  using assms
  by (auto simp: analyze_parking_data_def split: sum.splits disk.splits)

subsection \<open>The series of a lot\<close>

text \<open>
  The rate for a capacity other than 0: the rounded quotient, times 100, rounded. It is
  a number, since a rounding gives no NaN.
\<close>

lemma rate_explicit:
  assumes "cap \<noteq> 0"
  shows "occupancy_rate rnd occ cap =
           (case rnd (occ / real_of_int cap) of Fin q \<Rightarrow> rnd (q * 100) | v \<Rightarrow> v)"
  using assms by (simp add: occupancy_rate_def fdiv_def fmul_def split: pyfloat.splits)

lemma rate_no_nan:
  assumes "\<forall>x. rnd x \<noteq> NaN" and "cap \<noteq> 0"
  shows "occupancy_rate rnd occ cap \<noteq> NaN"
  using assms by (simp add: rate_explicit split: pyfloat.splits)

lemma fst_rate: "fst \<circ> (\<lambda>(h, occupied). (h, g occupied)) = fst"
  by auto

lemma slots_agree:
  assumes "distinct (map fst df)"
  shows "series_update (replicate 24 (Fin 0))
           (map (\<lambda>(h, occupied). (h, occupancy_rate rnd occupied cap)) df)
         = Inr (slots rnd cap df)"
proof -
  have mo: "map_of (map (\<lambda>(h, occupied). (h, occupancy_rate rnd occupied cap)) df) k
            = map_option (\<lambda>occ. occupancy_rate rnd occ cap) (map_of df k)" for k
    by (simp add: map_of_map)
  show ?thesis
    unfolding series_update_def slots_def
    using assms by (auto simp: fst_rate mo split: option.splits)
qed

lemma analyze_lot_single:
  assumes "analyze_lot rnd l [] = Inr [(n, s)]"
  shows "\<exists>cap df p c. name l = Some n \<and> capacity l = Some cap \<and>
           data_points (hourly_data l) = Inr df \<and> df \<noteq> [] \<and> distinct (map fst df) \<and>
           permit l = Some p \<and> count_now l = Some c \<and>
           s = \<lparr>data = slots rnd cap df, max_occupancy = series_max (slots rnd cap df),
                permit_out = p, current_occupancy = c, capacity_out = cap\<rparr>"
proof -
  from assms obtain cap df where
    nm: "name l = Some n" "capacity l = Some cap"
    and dp: "data_points (hourly_data l) = Inr df" "df \<noteq> []"
    by (auto simp: analyze_lot_def split: option.splits sum.splits if_splits)
  from assms nm dp have d: "distinct (map fst df)"
    by (auto simp: analyze_lot_def series_update_def fst_rate
             split: option.splits sum.splits if_splits)
  from assms nm dp slots_agree [OF d, of rnd cap] show ?thesis
    by (auto simp: analyze_lot_def d split: option.splits sum.splits if_splits)
qed

lemma analyze_lot_emits:
  assumes "name l = Some n" and "capacity l = Some cap"
    and "data_points (hourly_data l) = Inr df" and "df \<noteq> []" and "distinct (map fst df)"
    and "permit l = Some p" and "count_now l = Some c"
  shows "analyze_lot rnd l popular =
           Inr (AList.update n
                  \<lparr>data = slots rnd cap df, max_occupancy = series_max (slots rnd cap df),
                   permit_out = p, current_occupancy = c, capacity_out = cap\<rparr> popular)"
  using assms slots_agree [OF assms(5), of rnd cap]
  by (simp add: analyze_lot_def)

lemma data_points_mem:
  assumes "data_points xs = Inr df" and "(label, occ) \<in> set xs"
  shows "\<exists>h. py_int label = Some h \<and> (h, occ) \<in> set df"
  using assms
  by (induction xs arbitrary: df) (auto split: option.splits sum.splits)

lemma data_points_mem_rev:
  assumes "data_points xs = Inr df" and "(h, occ) \<in> set df"
  shows "\<exists>label. py_int label = Some h \<and> (label, occ) \<in> set xs"
  using assms
proof (induction xs arbitrary: df)
  case Nil
  then show ?case by simp
next
  case (Cons x xs)
  obtain label' occ' where x: "x = (label', occ')" by (cases x)
  from Cons.prems(1) x obtain h' ps where
    h': "py_int label' = Some h'" and ps: "data_points xs = Inr ps"
    and df: "df = (h', occ') # ps"
    by (auto split: option.splits sum.splits)
  from Cons.prems(2) df consider "(h, occ) = (h', occ')" | "(h, occ) \<in> set ps" by auto
  then show ?case
  proof cases
    case 1
    with h' x show ?thesis by auto
  next
    case 2
    from Cons.IH [OF ps 2] show ?thesis by auto
  qed
qed

lemma data_points_empty: "data_points xs = Inr [] \<longleftrightarrow> xs = []"
  by (cases xs) (auto split: option.splits sum.splits)

lemma length_slots: "length (slots rnd cap df) = 24"
  by (simp add: slots_def)

lemma nth_slots:
  assumes "i < 24"
  shows "slots rnd cap df ! i =
           (case map_of df (int i) of
              None \<Rightarrow> Fin 0
            | Some occ \<Rightarrow> if occupancy_rate rnd occ cap = NaN then Fin 0
                          else occupancy_rate rnd occ cap)"
  using assms by (simp add: slots_def)

lemma slots_no_nan: "v \<in> set (slots rnd cap df) \<Longrightarrow> v \<noteq> NaN"
  by (auto simp: slots_def split: option.splits if_splits)

lemma slots_nth_rate:
  assumes dp: "data_points xs = Inr df" and d: "distinct (map fst df)"
    and mem: "(label, occ) \<in> set xs" and h: "py_int label = Some h" "0 \<le> h" "h < 24"
    and nn: "occupancy_rate rnd occ cap \<noteq> NaN"
  shows "slots rnd cap df ! nat h = occupancy_rate rnd occ cap"
proof -
  from data_points_mem [OF dp mem] h(1) have "(h, occ) \<in> set df" by auto
  with d have "map_of df h = Some occ" by simp
  moreover from h have "nat h < 24" "int (nat h) = h" by auto
  ultimately show ?thesis using nn by (simp add: nth_slots)
qed

lemma slots_all_zero:
  assumes dp: "data_points xs = Inr df" and out: "\<forall>e \<in> set xs. \<not> hour_in_range e"
  shows "slots rnd cap df = replicate 24 (Fin 0)"
proof -
  have "map_of df (int i) = None" if "i < 24" for i
  proof (cases "map_of df (int i)")
    case None
    then show ?thesis .
  next
    case (Some occ)
    then have "(int i, occ) \<in> set df" by (rule map_of_SomeD)
    from data_points_mem_rev [OF dp this] obtain label where
      "py_int label = Some (int i)" "(label, occ) \<in> set xs" by blast
    with out that show ?thesis by (auto simp: hour_in_range_def)
  qed
  then have "slots rnd cap df ! i = replicate 24 (Fin 0) ! i" if "i < 24" for i
    using that by (simp add: nth_slots)
  then show ?thesis
    by (intro nth_equalityI) (simp_all add: length_slots)
qed

lemma map_of_filter_key:
  "map_of (filter (\<lambda>(k, v). P k) xs) k = (if P k then map_of xs k else None)"
  by (induction xs) auto

lemma data_points_filter:
  assumes "data_points xs = Inr df"
  shows "data_points (filter hour_in_range xs) =
           Inr (filter (\<lambda>(h, occ). 0 \<le> h \<and> h < 24) df)"
  using assms
  by (induction xs arbitrary: df) (auto simp: hour_in_range_def split: option.splits sum.splits)

lemma slots_filter: "slots rnd cap (filter (\<lambda>(h, occ). 0 \<le> h \<and> h < 24) df) = slots rnd cap df"
  unfolding slots_def by (rule map_cong) (auto simp: map_of_filter_key)

subsection \<open>The maximum of a series\<close>

lemma fle_refl: "v \<noteq> NaN \<Longrightarrow> fle v v"
  by (cases v) auto

lemma fle_trans: "fle a b \<Longrightarrow> fle b c \<Longrightarrow> fle a c"
  by (cases a; cases b; cases c) auto

lemma fle_total: "a \<noteq> NaN \<Longrightarrow> b \<noteq> NaN \<Longrightarrow> fle a b \<or> fle b a"
  by (cases a; cases b) auto

lemma fmax_cases: "fmax a b = a \<or> fmax a b = b"
  by (simp add: fmax_def)

lemma fmax_upper:
  assumes "a \<noteq> NaN" and "b \<noteq> NaN"
  shows "fle a (fmax a b)" and "fle b (fmax a b)"
  using assms fle_total [of a b] by (auto simp: fmax_def fle_refl)

lemma foldl_fmax_mem: "foldl fmax a xs \<in> set (a # xs)"
proof (induction xs arbitrary: a)
  case Nil
  then show ?case by simp
next
  case (Cons x xs)
  from Cons.IH [of "fmax a x"] fmax_cases [of a x] show ?case by auto
qed

lemma foldl_fmax_upper:
  assumes "\<forall>v \<in> set (a # xs). v \<noteq> NaN" and "v \<in> set (a # xs)"
  shows "fle v (foldl fmax a xs)"
  using assms
proof (induction xs arbitrary: a v)
  case Nil
  then show ?case by (simp add: fle_refl)
next
  case (Cons x xs)
  from Cons.prems(1) have a: "a \<noteq> NaN" and x: "x \<noteq> NaN" by auto
  with fmax_cases [of a x] have m: "fmax a x \<noteq> NaN" by auto
  with Cons.prems(1) have all: "\<forall>v \<in> set (fmax a x # xs). v \<noteq> NaN" by auto
  have top: "fle (fmax a x) (foldl fmax (fmax a x) xs)"
    using Cons.IH [OF all, of "fmax a x"] by simp
  from Cons.prems(2) consider "v = a" | "v = x" | "v \<in> set xs" by auto
  then show ?case
  proof cases
    case 1
    with fmax_upper(1) [OF a x] top show ?thesis by (auto intro: fle_trans)
  next
    case 2
    with fmax_upper(2) [OF a x] top show ?thesis by (auto intro: fle_trans)
  next
    case 3
    with Cons.IH [OF all, of v] show ?thesis by simp
  qed
qed

lemma series_max_no_nan:
  assumes "\<forall>v \<in> set xs. v \<noteq> NaN" and "xs \<noteq> []"
  shows "series_max xs \<in> set xs" and "\<forall>v \<in> set xs. fle v (series_max xs)"
proof -
  from assms(1) have f: "filter (\<lambda>v. v \<noteq> NaN) xs = xs" by (simp add: filter_id_conv)
  from assms(2) obtain y ys where xs: "xs = y # ys" by (cases xs) auto
  have sm: "series_max (y # ys) = foldl fmax y ys"
    using f unfolding series_max_def xs by simp
  from foldl_fmax_mem [of y ys] show "series_max xs \<in> set xs"
    unfolding xs sm by simp
  from foldl_fmax_upper [of y ys] assms(1) show "\<forall>v \<in> set xs. fle v (series_max xs)"
    unfolding xs sm by blast
qed

lemma series_max_slots:
  "series_max (slots rnd cap df) \<in> set (slots rnd cap df)"
  "\<forall>v \<in> set (slots rnd cap df). fle v (series_max (slots rnd cap df))"
proof -
  have ne: "slots rnd cap df \<noteq> []" using length_slots [of rnd cap df] by auto
  have nn: "\<forall>v \<in> set (slots rnd cap df). v \<noteq> NaN" using slots_no_nan by blast
  from series_max_no_nan [OF nn ne]
  show "series_max (slots rnd cap df) \<in> set (slots rnd cap df)"
    and "\<forall>v \<in> set (slots rnd cap df). fle v (series_max (slots rnd cap df))" by auto
qed

subsection \<open>Failure of the loop\<close>

lemma analyze_lots_fails:
  assumes "l \<in> set ls" and "\<And>p. \<exists>e. analyze_lot rnd l p = Inl e"
  shows "\<exists>e. analyze_lots rnd ls p = Inl e"
  using assms(1)
proof (induction ls arbitrary: p)
  case Nil
  then show ?case by simp
next
  case (Cons x xs)
  show ?case
  proof (cases "analyze_lot rnd x p")
    case (Inl e)
    then show ?thesis by simp
  next
    case (Inr q)
    with assms(2) [of p] have "x \<noteq> l" by auto
    with Cons.prems have "l \<in> set xs" by auto
    from Cons.IH [OF this, of q] Inr show ?thesis by simp
  qed
qed

section \<open>The claims\<close>

subsection \<open>C1: the stored rate\<close>

text \<open>
  Claim C1. Every summary in the mapping a run returns is the summary of a fetched lot;
  and for every lot that produces it, of a capacity other than 0, and for every entry of
  the lot's \<^verbatim>\<open>averageByHour\<close> whose label is an integer \<open>h\<close> from 0 to 23 with the
  count \<open>occ\<close>, entry \<open>h\<close> of \<open>data\<close> is exactly \<open>(occ / capacity) * 100\<close> as the
  script computes it: the quotient, rounded, then its product with 100, rounded (an
  infinity if the quotient overflows). No other rounding is applied to the stored
  value. This holds for every rounding \<open>rnd\<close> that gives no NaN, and with it for
  binary64.
\<close>

theorem stored_rate_is_computed_rate:
  assumes "analyze_parking_data rnd db dsk w = (w', Inr result)" and "(n, s) \<in> set result"
    and "\<forall>x. rnd x \<noteq> NaN"
  shows "(\<exists>l \<in> set (lots db). analyze_lot rnd l [] = Inr [(n, s)]) \<and>
         (\<forall>l cap label occ h.
            analyze_lot rnd l [] = Inr [(n, s)] \<and> capacity l = Some cap \<and> cap \<noteq> 0 \<and>
            (label, occ) \<in> set (hourly_data l) \<and> py_int label = Some h \<and> 0 \<le> h \<and> h < 24
            \<longrightarrow> data s ! nat h =
                  (case rnd (occ / real_of_int cap) of Fin q \<Rightarrow> rnd (q * 100) | v \<Rightarrow> v))"
proof (intro conjI allI impI)
  show "\<exists>l \<in> set (lots db). analyze_lot rnd l [] = Inr [(n, s)]"
    by (rule run_origin [OF assms(1,2)])
next
  fix l cap label occ h
  assume a: "analyze_lot rnd l [] = Inr [(n, s)] \<and> capacity l = Some cap \<and> cap \<noteq> 0 \<and>
            (label, occ) \<in> set (hourly_data l) \<and> py_int label = Some h \<and> 0 \<le> h \<and> h < 24"
  from analyze_lot_single [of rnd l n s] a obtain cap' df where
    c: "capacity l = Some cap'"
    and dp: "data_points (hourly_data l) = Inr df" and d: "distinct (map fst df)"
    and s: "data s = slots rnd cap' df" by auto
  from a c have cc: "cap' = cap" by simp
  from a have nz: "cap \<noteq> 0" and mem: "(label, occ) \<in> set (hourly_data l)"
    and h: "py_int label = Some h" "0 \<le> h" "h < 24" by auto
  have nn: "occupancy_rate rnd occ cap \<noteq> NaN" by (rule rate_no_nan [OF assms(3) nz])
  have "data s ! nat h = occupancy_rate rnd occ cap"
    using slots_nth_rate [OF dp d mem h nn] by (simp add: s cc)
  then show "data s ! nat h =
               (case rnd (occ / real_of_int cap) of Fin q \<Rightarrow> rnd (q * 100) | v \<Rightarrow> v)"
    by (simp add: rate_explicit [OF nz])
qed

text \<open>
  Witness of C1: the run on the lot South, of capacity 40 with the counts 10 at hour 8
  and 30 at hour 23, with exact arithmetic. Its entries 8 and 23 are \<open>10 / 40 * 100\<close>
  and \<open>30 / 40 * 100\<close>, that is 25.0 and 75.0.
\<close>

theorem stored_rate_is_computed_rate_witness:
  "analyze_parking_data Fin (db_of [south]) DiskOk w0
     = (written [(''South'', south_summary)], Inr [(''South'', south_summary)]) \<and>
   analyze_lot Fin south [] = Inr [(''South'', south_summary)] \<and>
   capacity south = Some 40 \<and> hourly_data south = [(''8'', 10), (''23'', 30)] \<and>
   py_int ''8'' = Some 8 \<and> py_int ''23'' = Some 23 \<and>
   data south_summary ! 8 = Fin (10 / real_of_int 40 * 100) \<and>
   data south_summary ! 23 = Fin (30 / real_of_int 40 * 100) \<and>
   data south_summary ! 8 = Fin 25 \<and> data south_summary ! 23 = Fin 75"
proof -
  have run: "analyze_parking_data Fin (db_of [south]) DiskOk w0
               = (written [(''South'', south_summary)], Inr [(''South'', south_summary)])"
    by (rule run_of_one [OF south_lot])
  have nn: "\<forall>x. Fin x \<noteq> NaN" by simp
  have mem: "(''South'', south_summary) \<in> set [(''South'', south_summary)]" by simp
  have c: "capacity south = Some 40" by (simp add: south_def)
  have hd: "hourly_data south = [(''8'', 10), (''23'', 30)]"
    by (simp add: south_def hourly_data_def)
  have p8: "py_int ''8'' = Some 8" by (rule py_int_8)
  have p23: "py_int ''23'' = Some 23" by (simp add: eval_defs)
  from stored_rate_is_computed_rate [OF run mem nn]
  have every: "\<forall>l cap label occ h.
            analyze_lot Fin l [] = Inr [(''South'', south_summary)] \<and> capacity l = Some cap \<and>
            cap \<noteq> 0 \<and> (label, occ) \<in> set (hourly_data l) \<and> py_int label = Some h \<and>
            0 \<le> h \<and> h < 24
            \<longrightarrow> data south_summary ! nat h =
                  (case Fin (occ / real_of_int cap) of Fin q \<Rightarrow> Fin (q * 100) | v \<Rightarrow> v)"
    by blast
  from every [rule_format, of south 40 "''8''" 10 8] south_lot c hd p8
  have a: "data south_summary ! 8 = Fin (10 / real_of_int 40 * 100)" by simp
  from every [rule_format, of south 40 "''23''" 30 23] south_lot c hd p23
  have b: "data south_summary ! 23 = Fin (30 / real_of_int 40 * 100)" by simp
  from a have a': "data south_summary ! 8 = Fin 25" by simp
  from b have b': "data south_summary ! 23 = Fin 75" by simp
  from run south_lot c hd p8 p23 a b a' b' show ?thesis by simp
qed

subsection \<open>C2: 24 entries\<close>

text \<open>
  Claim C2. Every summary in the mapping a run returns has a \<open>data\<close> of exactly 24
  entries, and they are the entries of the hours 0 to 23 in ascending order: \<open>data\<close>
  is the series \<open>slots\<close> of a fetched lot that produces this summary under this name,
  whatever labels its source mapping has.
\<close>

theorem data_has_24_entries:
  assumes "analyze_parking_data rnd db dsk w = (w', Inr result)" and "(n, s) \<in> set result"
  shows "length (data s) = 24 \<and>
         (\<exists>l \<in> set (lots db). \<exists>cap df. analyze_lot rnd l [] = Inr [(n, s)] \<and>
            name l = Some n \<and> capacity l = Some cap \<and>
            data_points (hourly_data l) = Inr df \<and> data s = slots rnd cap df)"
proof -
  from run_origin [OF assms] obtain l where l: "l \<in> set (lots db)"
    and one: "analyze_lot rnd l [] = Inr [(n, s)]" by blast
  from analyze_lot_single [OF one] obtain cap df where
    "name l = Some n" "capacity l = Some cap" "data_points (hourly_data l) = Inr df"
    "data s = slots rnd cap df" by auto
  with l one length_slots [of rnd cap df] show ?thesis by auto
qed

text \<open>Witness of C2: the summary of the lot Late, which has the labels 8 and 25.\<close>

theorem data_has_24_entries_witness:
  "analyze_parking_data Fin (db_of [late]) DiskOk w0
     = (written [(''Late'', late_summary)], Inr [(''Late'', late_summary)]) \<and>
   length (data late_summary) = 24"
proof -
  have run: "analyze_parking_data Fin (db_of [late]) DiskOk w0
               = (written [(''Late'', late_summary)], Inr [(''Late'', late_summary)])"
    by (rule run_of_one [OF late_lot])
  from data_has_24_entries [OF run, of "''Late''" late_summary]
  have "length (data late_summary) = 24" by simp
  with run show ?thesis by simp
qed

subsection \<open>C3: the maximum\<close>

text \<open>
  Claim C3. For every summary in the mapping a run returns, \<open>max_occupancy\<close> is the
  maximum of the 24 entries of \<open>data\<close>: it is one of them, and none is greater. It is
  0.0 when the lot that produces the summary has no hour from 0 to 23 in its source
  mapping.
\<close>

theorem max_occupancy_is_max_of_data:
  assumes "analyze_parking_data rnd db dsk w = (w', Inr result)" and "(n, s) \<in> set result"
  shows "max_occupancy s \<in> set (data s) \<and> (\<forall>v \<in> set (data s). fle v (max_occupancy s)) \<and>
         (\<exists>l \<in> set (lots db). name l = Some n \<and> analyze_lot rnd l [] = Inr [(n, s)] \<and>
            ((\<forall>e \<in> set (hourly_data l). \<not> hour_in_range e) \<longrightarrow> max_occupancy s = Fin 0))"
proof -
  from run_origin [OF assms] obtain l where l: "l \<in> set (lots db)"
    and one: "analyze_lot rnd l [] = Inr [(n, s)]" by blast
  from analyze_lot_single [OF one] obtain cap df p c where
    nm: "name l = Some n"
    and dp: "data_points (hourly_data l) = Inr df"
    and s: "data s = slots rnd cap df" "max_occupancy s = series_max (slots rnd cap df)"
    by auto
  have mem: "max_occupancy s \<in> set (data s)"
    and ub: "\<forall>v \<in> set (data s). fle v (max_occupancy s)"
    using series_max_slots [of rnd cap df] by (simp_all add: s)
  have "max_occupancy s = Fin 0" if "\<forall>e \<in> set (hourly_data l). \<not> hour_in_range e"
    using mem slots_all_zero [OF dp that, of rnd cap] by (simp add: s)
  with mem ub l nm one show ?thesis by blast
qed

text \<open>
  Witness of C3: the summary of North, whose maximum 80.0 is an entry and bounds the
  entry 50.0; and the summary of Night, whose only label is 25 and whose maximum is 0.0.
\<close>

theorem max_occupancy_is_max_of_data_witness:
  "max_occupancy north_summary \<in> set (data north_summary) \<and>
   Fin 50 \<in> set (data north_summary) \<and> fle (Fin 50) (max_occupancy north_summary) \<and>
   hourly_data night = [(''25'', 90)] \<and> \<not> hour_in_range (''25'', 90) \<and>
   max_occupancy night_summary = Fin 0"
proof -
  have run_n: "analyze_parking_data Fin (db_of [north]) DiskOk w0
               = (written [(''North'', north_summary)], Inr [(''North'', north_summary)])"
    by (rule run_of_one [OF north_lot])
  have run_t: "analyze_parking_data Fin (db_of [night]) DiskOk w0
               = (written [(''Night'', night_summary)], Inr [(''Night'', night_summary)])"
    by (rule run_of_one [OF night_lot])
  have fifty: "Fin 50 \<in> set (data north_summary)" by (simp add: north_summary_def)
  from max_occupancy_is_max_of_data [OF run_n, of "''North''" north_summary] fifty
  have a: "max_occupancy north_summary \<in> set (data north_summary)"
    and b: "fle (Fin 50) (max_occupancy north_summary)" by auto
  have hd: "hourly_data night = [(''25'', 90)]" by (simp add: night_def hourly_data_def)
  have out: "\<not> hour_in_range (''25'', 90)" by (simp add: hour_in_range_def py_int_25)
  from max_occupancy_is_max_of_data [OF run_t, of "''Night''" night_summary]
  have c: "max_occupancy night_summary = Fin 0"
    by (auto simp: db_of_def hd out)
  from a b c fifty hd out show ?thesis by simp
qed

subsection \<open>C4: a lot without hours\<close>

text \<open>
  Claim C4, amended. A lot whose \<^verbatim>\<open>historicalData\<close> or \<^verbatim>\<open>averageByHour\<close> is absent,
  or whose \<^verbatim>\<open>averageByHour\<close> is empty, and that has a name and a capacity, produces no
  summary: the guard \<^verbatim>\<open>if not df.empty\<close> skips it, the iteration leaves the output
  mapping as it is, and \<^verbatim>\<open>permit\<close> and \<^verbatim>\<open>count_now\<close> are not read.
\<close>

theorem lot_without_hours_is_skipped:
  assumes "historicalData l = None \<or>
           (\<exists>h. historicalData l = Some h \<and>
                (averageByHour h = None \<or> averageByHour h = Some []))"
    and "name l = Some n" and "capacity l = Some cap"
  shows "analyze_lot rnd l popular = Inr popular"
  using assms by (auto simp: analyze_lot_def hourly_data_def)

text \<open>
  Witness of C4: the lot Quiet, with an empty \<^verbatim>\<open>averageByHour\<close>, leaves a mapping that
  holds the summary of North unchanged.
\<close>

theorem lot_without_hours_is_skipped_witness:
  "historicalData quiet = Some \<lparr>averageByHour = Some []\<rparr> \<and>
   name quiet = Some ''Quiet'' \<and> capacity quiet = Some 60 \<and>
   analyze_lot Fin quiet [(''North'', north_summary)] = Inr [(''North'', north_summary)]"
proof -
  have h: "historicalData quiet = Some \<lparr>averageByHour = Some []\<rparr>"
    and n: "name quiet = Some ''Quiet''" and c: "capacity quiet = Some 60"
    by (simp_all add: quiet_def)
  from h have d: "historicalData quiet = None \<or>
           (\<exists>h. historicalData quiet = Some h \<and>
                (averageByHour h = None \<or> averageByHour h = Some []))" by simp
  from lot_without_hours_is_skipped
         [where rnd = Fin and popular = "[(''North'', north_summary)]", OF d n c] h n c
  show ?thesis by simp
qed

text \<open>
  Counterexample to C4 as stated: the run on the lot Quiet alone completes and writes
  the file, and the mapping it returns and writes is empty: there is no summary for
  Quiet.
\<close>

theorem lot_without_hours_counterexample:
  "hourly_data quiet = [] \<and>
   analyze_parking_data Fin (db_of [quiet]) DiskOk w0 = (written [], Inr [])"
  by (simp add: quiet_def eval_defs)

subsection \<open>C5: the scenario North\<close>

text \<open>
  Claim C5. For the lot North, of capacity 100, permit Staff, 42 cars now and the counts
  50 at hour 8 and 80 at hour 12, the loop body stores under the name North the summary
  with 50.0 at index 8, 80.0 at index 12 and 0.0 elsewhere, the maximum 80.0, the
  permit Staff, the current occupancy 42 and the capacity 100. The scenario is
  evaluated with the rounding \<open>Fin\<close>, that is with exact arithmetic; binary64 stores
  the same two rates, 50.0 and 80.0.
\<close>

theorem north_scenario:
  "analyze_lot Fin
     \<lparr>name = Some ''North'', capacity = Some 100, permit = Some ''Staff'',
      count_now = Some 42,
      historicalData = Some \<lparr>averageByHour = Some [(''8'', 50), (''12'', 80)]\<rparr>\<rparr>
     popular
   = Inr (AList.update ''North''
      \<lparr>data = [Fin 0, Fin 0, Fin 0, Fin 0, Fin 0, Fin 0, Fin 0, Fin 0, Fin 50, Fin 0, Fin 0,
               Fin 0, Fin 80, Fin 0, Fin 0, Fin 0, Fin 0, Fin 0, Fin 0, Fin 0, Fin 0, Fin 0,
               Fin 0, Fin 0],
       max_occupancy = Fin 80, permit_out = ''Staff'', current_occupancy = 42,
       capacity_out = 100\<rparr>
      popular)"
  by (simp add: eval_defs upt_rec numeral_eq_Suc)

subsection \<open>C6: capacity 0\<close>

text \<open>
  Claim C6, amended. The script has no guard for a capacity of 0. For a lot with
  capacity 0 and at least one hour, the division is carried out by pandas and raises
  nothing; when the labels are distinct integers and the lot has a name, a permit and
  a count, its summary is stored like any other: \<open>data\<close> has 24 entries, and the entry
  of an hour from 0 to 23 is plus infinity for a positive count, minus infinity for a
  negative one and 0.0 for the count 0.
\<close>

theorem zero_capacity_is_not_guarded:
  assumes "name l = Some n" and "capacity l = Some 0"
    and "data_points (hourly_data l) = Inr df" and "df \<noteq> []" and "distinct (map fst df)"
    and "permit l = Some p" and "count_now l = Some c"
  shows "\<exists>s. analyze_lot rnd l popular = Inr (AList.update n s popular) \<and>
           length (data s) = 24 \<and>
           (\<forall>(h, occ) \<in> set df. 0 \<le> h \<and> h < 24 \<longrightarrow>
              data s ! nat h = (if 0 < occ then PInf else if occ < 0 then NInf else Fin 0))"
proof -
  let ?s = "\<lparr>data = slots rnd 0 df, max_occupancy = series_max (slots rnd 0 df),
             permit_out = p, current_occupancy = c, capacity_out = 0\<rparr>"
  have "slots rnd 0 df ! nat h = (if 0 < occ then PInf else if occ < 0 then NInf else Fin 0)"
    if "(h, occ) \<in> set df" "0 \<le> h" "h < 24" for h occ
  proof -
    from that(1) assms(5) have "map_of df h = Some occ" by simp
    moreover from that have "nat h < 24" "int (nat h) = h" by auto
    ultimately show ?thesis
      by (simp add: nth_slots occupancy_rate_def fdiv_def fmul_def)
  qed
  with analyze_lot_emits [OF assms, of rnd popular] length_slots [of rnd 0 df]
  show ?thesis by (intro exI [of _ ?s]) auto
qed

text \<open>
  Witness of C6: the lot Closed, of capacity 0 with the count 50 at hour 8; its summary
  has plus infinity at index 8.
\<close>

theorem zero_capacity_is_not_guarded_witness:
  "capacity closed_lot = Some 0 \<and>
   data_points (hourly_data closed_lot) = Inr [(8, 50)] \<and>
   analyze_lot Fin closed_lot [] = Inr [(''Closed'', closed_summary)] \<and>
   length (data closed_summary) = 24 \<and> data closed_summary ! 8 = PInf"
proof -
  have n: "name closed_lot = Some ''Closed''" and c: "capacity closed_lot = Some 0"
    and p: "permit closed_lot = Some ''Staff''" and k: "count_now closed_lot = Some 3"
    by (simp_all add: closed_lot_def)
  have dp: "data_points (hourly_data closed_lot) = Inr [(8, 50)]"
    by (simp add: closed_lot_def hourly_data_def py_int_8)
  have ne: "[(8::int, 50::real)] \<noteq> []" and d: "distinct (map fst [(8::int, 50::real)])"
    by simp_all
  from zero_capacity_is_not_guarded [where rnd = Fin and popular = "[]", OF n c dp ne d p k]
  obtain s where s: "analyze_lot Fin closed_lot [] = Inr (AList.update ''Closed'' s [])"
    and len: "length (data s) = 24" and inf: "data s ! nat 8 = PInf" by auto
  from s closed_lot_emits have "s = closed_summary" by simp
  with len inf c dp closed_lot_emits show ?thesis by simp
qed

text \<open>
  Counterexample to C6 as stated: the run on the lot Closed, of capacity 0 with one hour,
  neither leaves the lot out nor fails. It completes, and the mapping it returns and
  writes holds a summary for Closed, with plus infinity at index 8 and as maximum.
\<close>

theorem zero_capacity_counterexample:
  "capacity closed_lot = Some 0 \<and> hourly_data closed_lot = [(''8'', 50)] \<and>
   analyze_parking_data Fin (db_of [closed_lot]) DiskOk w0
     = (written [(''Closed'', closed_summary)], Inr [(''Closed'', closed_summary)]) \<and>
   data closed_summary ! 8 = PInf \<and> max_occupancy closed_summary = PInf"
  using run_of_one [OF closed_lot_emits]
  by (simp add: closed_lot_def closed_summary_def hourly_data_def)

subsection \<open>C7: a missing required field\<close>

text \<open>
  Claim C7, amended. A fetched record without \<^verbatim>\<open>name\<close> or without \<^verbatim>\<open>capacity\<close> makes
  the run fail, and so does a record without \<^verbatim>\<open>permit\<close> or without \<^verbatim>\<open>count_now\<close> whose
  \<^verbatim>\<open>averageByHour\<close> has at least one entry. The run ends with an error and leaves the
  world as it was. (A record with no entry is skipped before \<^verbatim>\<open>permit\<close> and
  \<^verbatim>\<open>count_now\<close> are read.)
\<close>

theorem missing_field_aborts_run:
  assumes "l \<in> set (lots db)"
    and "name l = None \<or> capacity l = None \<or>
         (hourly_data l \<noteq> [] \<and> (permit l = None \<or> count_now l = None))"
  shows "\<exists>e. analyze_parking_data rnd db dsk w = (w, Inl e)"
proof (cases "available db")
  case False
  then show ?thesis by (simp add: analyze_parking_data_def get_firestore_data_def)
next
  case True
  have "\<exists>e. analyze_lot rnd l p = Inl e" for p
    using assms(2) data_points_empty [of "hourly_data l"]
    by (auto simp: analyze_lot_def split: option.splits sum.splits)
  from analyze_lots_fails [OF assms(1) this, of "[]"] obtain e where
    "analyze_lots rnd (lots db) [] = Inl e" by blast
  with True show ?thesis by (simp add: analyze_parking_data_def get_firestore_data_def)
qed

text \<open>
  Witness of C7: a document without a name after the lot North, and the lot Gate, which
  has an hour and no permit. Both runs fail and leave the world as it was.
\<close>

theorem missing_field_aborts_run_witness:
  "name nameless = None \<and>
   analyze_parking_data Fin (db_of [north, nameless]) DiskOk w0 = (w0, Inl (KeyError ''name'')) \<and>
   hourly_data unpermitted = [(''8'', 5)] \<and> permit unpermitted = None \<and>
   analyze_parking_data Fin (db_of [unpermitted]) DiskOk w0 = (w0, Inl (KeyError ''permit''))"
proof -
  have a: "nameless \<in> set (lots (db_of [north, nameless]))" by (simp add: db_of_def)
  have b: "name nameless = None" by (simp add: nameless_def)
  from missing_field_aborts_run [OF a, of Fin DiskOk w0] b
  obtain e where e: "analyze_parking_data Fin (db_of [north, nameless]) DiskOk w0 = (w0, Inl e)"
    by auto
  have "snd (analyze_parking_data Fin (db_of [north, nameless]) DiskOk w0) = Inl (KeyError ''name'')"
    by (simp add: analyze_parking_data_def get_firestore_data_def db_of_def
                  north_lot nameless_fails)
  with e have r1: "analyze_parking_data Fin (db_of [north, nameless]) DiskOk w0
                     = (w0, Inl (KeyError ''name''))" by simp
  have c: "unpermitted \<in> set (lots (db_of [unpermitted]))" by (simp add: db_of_def)
  have hd: "hourly_data unpermitted = [(''8'', 5)]" and p: "permit unpermitted = None"
    by (simp_all add: unpermitted_def hourly_data_def)
  from missing_field_aborts_run [OF c, of Fin DiskOk w0] hd p
  obtain e' where e': "analyze_parking_data Fin (db_of [unpermitted]) DiskOk w0 = (w0, Inl e')"
    by auto
  have "snd (analyze_parking_data Fin (db_of [unpermitted]) DiskOk w0) = Inl (KeyError ''permit'')"
    by (simp add: unpermitted_def eval_defs)
  with e' have r2: "analyze_parking_data Fin (db_of [unpermitted]) DiskOk w0
                      = (w0, Inl (KeyError ''permit''))" by simp
  from b r1 hd p r2 show ?thesis by simp
qed

text \<open>
  Counterexample to C7 as stated: the document Bare has neither \<^verbatim>\<open>permit\<close> nor
  \<^verbatim>\<open>count_now\<close> (and no \<^verbatim>\<open>historicalData\<close>). The run on it does not fail: it completes
  and writes an empty mapping.
\<close>

theorem missing_field_counterexample:
  "permit bare = None \<and> count_now bare = None \<and>
   analyze_parking_data Fin (db_of [bare]) DiskOk w0 = (written [], Inr [])"
  by (simp add: bare_def eval_defs)

subsection \<open>C8: no output after an early failure\<close>

text \<open>
  Claim C8. When the fetch fails, or the aggregation of some lot fails, the run ends
  with that error before the file is opened: the world, and with it the output file,
  is what it was before the run, whatever the disk would have done.
\<close>

theorem failure_before_write_leaves_file:
  assumes "get_firestore_data db = Inl e \<or>
           (\<exists>ls. get_firestore_data db = Inr ls \<and> analyze_lots rnd ls [] = Inl e)"
  shows "analyze_parking_data rnd db dsk w = (w, Inl e)"
  using assms by (auto simp: analyze_parking_data_def)

text \<open>
  Witness of C8: with the file of an earlier run in place, a run without connection and
  a run that meets a document without a name after the lot North both leave that file.
\<close>

theorem failure_before_write_leaves_file_witness:
  "get_firestore_data offline = Inl (FetchError ''lots'') \<and>
   analyze_parking_data Fin offline DiskOk w_old = (w_old, Inl (FetchError ''lots'')) \<and>
   analyze_lots Fin [north, nameless] [] = Inl (KeyError ''name'') \<and>
   analyze_parking_data Fin (db_of [north, nameless]) DiskOk w_old
     = (w_old, Inl (KeyError ''name'')) \<and>
   out_file w_old = Some (Complete [(''North'', north_summary)])"
proof -
  have f: "get_firestore_data offline = Inl (FetchError ''lots'')"
    by (simp add: get_firestore_data_def offline_def)
  then have f': "get_firestore_data offline = Inl (FetchError ''lots'') \<or>
      (\<exists>ls. get_firestore_data offline = Inr ls \<and> analyze_lots Fin ls [] = Inl (FetchError ''lots''))"
    by simp
  have g: "get_firestore_data (db_of [north, nameless]) = Inr [north, nameless]"
    by (simp add: get_firestore_data_def db_of_def)
  have a: "analyze_lots Fin [north, nameless] [] = Inl (KeyError ''name'')"
    by (rule north_then_nameless)
  from g a have a': "get_firestore_data (db_of [north, nameless]) = Inl (KeyError ''name'') \<or>
      (\<exists>ls. get_firestore_data (db_of [north, nameless]) = Inr ls \<and>
            analyze_lots Fin ls [] = Inl (KeyError ''name''))"
    by simp
  from failure_before_write_leaves_file [OF f', of DiskOk w_old]
       failure_before_write_leaves_file [OF a', of DiskOk w_old] f a
  show ?thesis by (simp add: w_old_def)
qed

subsection \<open>C10: hours out of range\<close>

text \<open>
  Claim C10, amended. For every lot that produces a summary, the entries of
  \<^verbatim>\<open>averageByHour\<close> whose label is an integer outside 0 to 23 count for nothing in
  it: \<open>data\<close> keeps its 24 entries, and the summary is the one the lot produces with
  those entries removed. When no entry is left after the removal, \<open>data\<close> is all 0.0
  and \<open>max_occupancy\<close> is 0.0. (A lot produces no summary when two of its labels are
  the same integer, in range or not: \<^verbatim>\<open>Series.update\<close> raises and the run fails.)
\<close>

theorem out_of_range_hours_ignored:
  assumes "analyze_lot rnd l [] = Inr [(n, s)]"
  shows "length (data s) = 24 \<and>
         (if filter hour_in_range (hourly_data l) = []
          then data s = replicate 24 (Fin 0) \<and> max_occupancy s = Fin 0
          else analyze_lot rnd
                 (l\<lparr>historicalData :=
                      Some \<lparr>averageByHour = Some (filter hour_in_range (hourly_data l))\<rparr>\<rparr>) []
               = Inr [(n, s)])"
proof -
  let ?kept = "filter hour_in_range (hourly_data l)"
  let ?l = "l\<lparr>historicalData := Some \<lparr>averageByHour = Some ?kept\<rparr>\<rparr>"
  let ?df = "\<lambda>df. filter (\<lambda>(h, occ). 0 \<le> h \<and> h < 24) df"
  from analyze_lot_single [OF assms] obtain cap df p c where
    nm: "name l = Some n" "capacity l = Some cap"
    and dp: "data_points (hourly_data l) = Inr df" and d: "distinct (map fst df)"
    and pc: "permit l = Some p" "count_now l = Some c"
    and s: "s = \<lparr>data = slots rnd cap df, max_occupancy = series_max (slots rnd cap df),
                 permit_out = p, current_occupancy = c, capacity_out = cap\<rparr>" by auto
  have len: "length (data s) = 24" by (simp add: s length_slots)
  show ?thesis
  proof (cases "?kept = []")
    case True
    then have out: "\<forall>e \<in> set (hourly_data l). \<not> hour_in_range e"
      by (simp add: filter_empty_conv)
    have z: "slots rnd cap df = replicate 24 (Fin 0)" by (rule slots_all_zero [OF dp out])
    have "series_max (slots rnd cap df) \<in> set (slots rnd cap df)" by (rule series_max_slots)
    then have "series_max (slots rnd cap df) = Fin 0" unfolding z by simp
    with True len z show ?thesis by (simp add: s)
  next
    case False
    have hd: "hourly_data ?l = ?kept" by (simp add: hourly_data_def)
    have dp': "data_points (hourly_data ?l) = Inr (?df df)"
      unfolding hd by (rule data_points_filter [OF dp])
    have ne: "?df df \<noteq> []"
      using data_points_filter [OF dp] False data_points_empty [of ?kept] by auto
    have d': "distinct (map fst (?df df))" using d by (rule distinct_map_filter)
    have "analyze_lot rnd ?l [] = Inr [(n, s)]"
      using analyze_lot_emits [of ?l n cap "?df df" p c rnd "[]", OF _ _ dp' ne d'] nm pc
      by (simp add: slots_filter s)
    with False len show ?thesis by simp
  qed
qed

text \<open>
  Witness of C10: the lot Late has the labels 8 and 25, and its summary is the one it
  produces with the label 8 alone; the lot Night has the label 25 alone, and its summary
  is all 0.0.
\<close>

theorem out_of_range_hours_ignored_witness:
  "analyze_lot Fin late [] = Inr [(''Late'', late_summary)] \<and>
   filter hour_in_range (hourly_data late) = [(''8'', 50)] \<and>
   analyze_lot Fin (late\<lparr>historicalData := Some \<lparr>averageByHour = Some [(''8'', 50)]\<rparr>\<rparr>) []
     = Inr [(''Late'', late_summary)] \<and>
   length (data late_summary) = 24 \<and>
   analyze_lot Fin night [] = Inr [(''Night'', night_summary)] \<and>
   filter hour_in_range (hourly_data night) = [] \<and>
   data night_summary = replicate 24 (Fin 0) \<and> max_occupancy night_summary = Fin 0"
proof -
  have kl: "filter hour_in_range (hourly_data late) = [(''8'', 50)]"
    by (simp add: late_def hourly_data_def hour_in_range_def py_int_8 py_int_25)
  have kn: "filter hour_in_range (hourly_data night) = []"
    by (simp add: night_def hourly_data_def hour_in_range_def py_int_25)
  from out_of_range_hours_ignored [OF late_lot]
  have a: "length (data late_summary) = 24"
    and b: "analyze_lot Fin (late\<lparr>historicalData := Some \<lparr>averageByHour = Some [(''8'', 50)]\<rparr>\<rparr>) []
              = Inr [(''Late'', late_summary)]"
    unfolding kl by simp_all
  from out_of_range_hours_ignored [OF night_lot]
  have c: "data night_summary = replicate 24 (Fin 0)"
    and d: "max_occupancy night_summary = Fin 0"
    unfolding kn by simp_all
  from late_lot night_lot kl kn a b c d show ?thesis by simp
qed

text \<open>
  Counterexample to C10 as stated: the lot Clash has the hour 8 and the labels 25 and
  025, both the integer 25 and out of range. They are not ignored: the run on Clash
  fails in \<^verbatim>\<open>Series.update\<close> and leaves the world as it was, and the run on the same
  lot without the two entries completes with a summary.
\<close>

theorem out_of_range_hours_counterexample:
  "hourly_data clash = [(''8'', 50), (''25'', 90), (''025'', 10)] \<and>
   py_int ''25'' = Some 25 \<and> py_int ''025'' = Some 25 \<and>
   analyze_parking_data Fin (db_of [clash]) DiskOk w0
     = (w0, Inl (ValueError ''cannot reindex on an axis with duplicate labels'')) \<and>
   analyze_parking_data Fin
       (db_of [clash\<lparr>historicalData := Some \<lparr>averageByHour = Some [(''8'', 50)]\<rparr>\<rparr>])
       DiskOk w0
     = (written [(''Clash'', clash_summary)], Inr [(''Clash'', clash_summary)])"
  by (simp add: clash_def clash_summary_def eval_defs upt_rec numeral_eq_Suc)


end
